theory Spec2Isabelle
  imports Main "HOL-Library.Word"
begin

unbundle bit_operations_syntax

section \<open>tuncat: a shallow embedding of the C program\<close>

text \<open>
  The program is the most recent of the three variants of tuncat held by the
  repository, the one with owner and group support. Its functions
  \<open>get_uid_by_name\<close>, \<open>get_gid_by_name\<close>, \<open>infinite_loop\<close>,
  \<open>create_tun\<close>, \<open>close_tun\<close> and \<open>main\<close> are translated one by one.
  Everything the C code obtains from the operating system or from libc is an explicit
  input of the model; everything it does to the operating system is recorded in an
  explicit \<open>world\<close>.

  Conventions:
  \<^item> a C \<open>int\<close> or \<open>long\<close> is an \<open>int\<close>; the one narrowing
    conversion of the program (\<open>long\<close> to \<open>int\<close> for the buffer length) is written out;
    \<open>uid_t\<close> and \<open>gid_t\<close> are \<open>32 word\<close>, the \<open>short\<close> field
    \<open>ifr_flags\<close> is a \<open>16 word\<close>;
  \<^item> a NUL-terminated C string is the \<open>string\<close> of its characters before the NUL;
  \<^item> a pointer argument is an \<open>option\<close>: \<open>None\<close> is \<open>NULL\<close>, \<open>Some v\<close>
    points to an object that currently holds \<open>v\<close>, and the function returns
    what the object holds afterwards.
\<close>

subsection \<open>Constants of the system headers\<close>

text \<open>
  The values are those of Linux (\<open>errno.h\<close>, \<open>linux/if.h\<close>, \<open>linux/if_tun.h\<close>,
  \<open>fcntl.h\<close>) on an LP64 target, where \<open>long\<close> has 64 bits and \<open>int\<close> 32.
\<close>

definition EINTR :: int where "EINTR = 4"
definition EBADF :: int where "EBADF = 9"
definition ENOMEM :: int where "ENOMEM = 12"
definition EINVAL :: int where "EINVAL = 22"
definition ERANGE :: int where "ERANGE = 34"
definition ENAMETOOLONG :: int where "ENAMETOOLONG = 36"

definition IFF_TUN :: "16 word" where "IFF_TUN = 0x0001"
definition IFF_TAP :: "16 word" where "IFF_TAP = 0x0002"
definition IFF_NO_PI :: "16 word" where "IFF_NO_PI = 0x1000"
definition IFNAMSIZ :: nat where "IFNAMSIZ = 16"
definition O_NONBLOCK :: int where "O_NONBLOCK = 2048"
definition STDIN_FILENO :: int where "STDIN_FILENO = 0"
definition STDOUT_FILENO :: int where "STDOUT_FILENO = 1"

definition LONG_MAX :: int where "LONG_MAX = 2 ^ 63 - 1"
definition LONG_MIN :: int where "LONG_MIN = - (2 ^ 63)"
definition UINT_MAX :: int where "UINT_MAX = 2 ^ 32 - 1"

definition DEFAULT_BUFFER_LEN :: int where "DEFAULT_BUFFER_LEN = 65536"

subsection \<open>libc: \<open>strtol\<close> in base 10\<close>

text \<open>
  \<open>strtol(nptr, &endptr, 10)\<close> as the C standard describes it: white space is
  skipped, one optional sign is read, then the longest run of decimal digits. The
  result is the value read, the text \<open>endptr\<close> points to, and the value \<open>errno\<close>
  has afterwards when it was 0 before. With no digit at all no conversion is performed:
  the value is 0 and \<open>endptr\<close> is \<open>nptr\<close>. A value that does not fit a \<open>long\<close>
  is clamped and reported with \<open>ERANGE\<close>.
\<close>

definition isspace :: "char \<Rightarrow> bool" where
  "isspace c = (of_char c \<in> set [32, 9, 10, 11, 12, 13 :: nat])"

definition isdigit :: "char \<Rightarrow> bool" where
  "isdigit c = (48 \<le> (of_char c :: nat) \<and> (of_char c :: nat) \<le> 57)"

definition digit_val :: "char \<Rightarrow> int" where
  "digit_val c = int (of_char c) - 48"

fun dec_value :: "int \<Rightarrow> string \<Rightarrow> int" where
  "dec_value acc [] = acc"
| "dec_value acc (c # cs) = dec_value (10 * acc + digit_val c) cs"

definition strtol :: "string \<Rightarrow> int \<times> string \<times> int" where
  "strtol nptr =
     (let s1 = dropWhile isspace nptr;
          neg = (case s1 of [] \<Rightarrow> False | c # _ \<Rightarrow> c = CHR ''-'');
          s2 = (case s1 of [] \<Rightarrow> []
                | c # cs \<Rightarrow> if c = CHR ''-'' \<or> c = CHR ''+'' then cs else s1);
          ds = takeWhile isdigit s2;
          endptr = dropWhile isdigit s2;
          v = (if neg then - dec_value 0 ds else dec_value 0 ds)
      in if ds = [] then (0, nptr, 0)
         else if LONG_MAX < v then (LONG_MAX, endptr, ERANGE)
         else if v < LONG_MIN then (LONG_MIN, endptr, ERANGE)
         else (v, endptr, 0))"

subsection \<open>\<open>get_uid_by_name\<close> and \<open>get_gid_by_name\<close>\<close>

text \<open>
  The system identity directory is a finite map from names to ids: \<open>getpwnam\<close>
  (\<open>getgrnam\<close>) returns \<open>NULL\<close> exactly for a name outside its domain. The result
  is the returned \<open>int\<close> and what \<open>*id\<close> holds afterwards.
\<close>

type_synonym uid_t = "32 word"
type_synonym gid_t = "32 word"

definition get_uid_by_name ::
  "(string \<rightharpoonup> uid_t) \<Rightarrow> string option \<Rightarrow> uid_t option \<Rightarrow> int \<times> uid_t option" where
  "get_uid_by_name getpwnam name idp =
     (case name of
        None \<Rightarrow> (EINVAL, idp)
      | Some n \<Rightarrow>
          (case idp of
             None \<Rightarrow> (EINVAL, idp)
           | Some old \<Rightarrow>
               (case strtol n of
                  (conv, endptr, err) \<Rightarrow>
                    if endptr = [] \<and> err = 0 then
                      (if conv < 0 \<or> UINT_MAX < conv then (ERANGE, Some old)
                       else (0, Some (word_of_int conv)))
                    else
                      (case getpwnam n of
                         None \<Rightarrow> (EINVAL, Some old)
                       | Some pw_uid \<Rightarrow> (0, Some pw_uid)))))"

definition get_gid_by_name ::
  "(string \<rightharpoonup> gid_t) \<Rightarrow> string option \<Rightarrow> gid_t option \<Rightarrow> int \<times> gid_t option" where
  "get_gid_by_name getgrnam name idp =
     (case name of
        None \<Rightarrow> (EINVAL, idp)
      | Some n \<Rightarrow>
          (case idp of
             None \<Rightarrow> (EINVAL, idp)
           | Some old \<Rightarrow>
               (case strtol n of
                  (conv, endptr, err) \<Rightarrow>
                    if endptr = [] \<and> err = 0 then
                      (if conv < 0 \<or> UINT_MAX < conv then (ERANGE, Some old)
                       else (0, Some (word_of_int conv)))
                    else
                      (case getgrnam n of
                         None \<Rightarrow> (EINVAL, Some old)
                       | Some gr_gid \<Rightarrow> (0, Some gr_gid)))))"

subsection \<open>The operating system: world, events and system calls\<close>

text \<open>
  The \<open>world\<close> holds what the program can change or observe: \<open>errno\<close>, the
  process-wide \<open>interrupt_flag\<close>, the set of open descriptors, the bytes waiting on
  the input stream and in the device, the bytes written so far to the output stream
  and to the device, and the \<open>trace\<close> of the system calls issued (extended by
  \<open>main\<close> with its invocations of \<open>close_tun\<close>). \<open>stderr_errno\<close> is the
  state of the error stream as far as the program can feel it: \<open>None\<close> when
  printing a diagnostic leaves \<open>errno\<close> alone, \<open>Some e\<close> when it leaves
  \<open>e\<close> there (a closed or full error stream).
\<close>

datatype event =
    Sys_open
  | Ioctl_TUNSETIFF int "16 word" string
  | Fcntl_GETFL int
  | Fcntl_SETFL int int
  | Ioctl_TUNSETPERSIST int int
  | Ioctl_TUNSETOWNER int uid_t
  | Ioctl_TUNSETGROUP int gid_t
  | Sys_close int
  | Sys_select int
  | Call_close_tun int

record world =
  errno :: int
  interrupt_flag :: int
  open_fds :: "int set"
  trace :: "event list"
  stdin_pending :: "8 word list"
  stdout_written :: "8 word list"
  tun_pending :: "8 word list list"
  tun_written :: "8 word list list"
  stderr_errno :: "int option"

text \<open>
  What the operating system answers is the \<open>sys_env\<close>: for each system call of
  \<open>create_tun\<close> and \<open>close_tun\<close> the value it returns and the \<open>errno\<close> it
  sets when that value is negative, and the interface name the kernel writes back
  into the request of a successful \<open>TUNSETIFF\<close>. Each of these calls is issued at
  most once in a run of the program, so one answer per call suffices.
\<close>

record sys_env =
  open_out :: "int \<times> int"
  tunsetiff_out :: "int \<times> int"
  tunsetiff_name :: string
  getfl_out :: "int \<times> int"
  setfl_out :: "int \<times> int"
  persist_out :: "int \<times> int"
  owner_out :: "int \<times> int"
  group_out :: "int \<times> int"
  close_out :: "int \<times> int"

definition syscall :: "event \<Rightarrow> int \<times> int \<Rightarrow> world \<Rightarrow> int \<times> world" where
  "syscall ev out w =
     (fst out, w\<lparr>trace := trace w @ [ev],
                 errno := (if fst out < 0 then snd out else errno w)\<rparr>)"

text \<open>
  \<open>fprintf(stderr, ...)\<close> and \<open>perror(...)\<close>: what is printed is not followed,
  what printing does to \<open>errno\<close> is. \<open>errno\<close> is followed through
  \<open>create_tun\<close>, \<open>close_tun\<close> and \<open>infinite_loop\<close>, the functions that
  read it; the diagnostics of \<open>main\<close> itself and of \<open>get_uid_by_name\<close> and
  \<open>get_gid_by_name\<close> are not followed, since the program reads \<open>errno\<close>
  after them only once a failed system call has set it again.
\<close>

definition fprintf_stderr :: "world \<Rightarrow> world" where
  "fprintf_stderr w = (case stderr_errno w of None \<Rightarrow> w | Some e \<Rightarrow> w\<lparr>errno := e\<rparr>)"

definition perror :: "world \<Rightarrow> world" where
  "perror w = (case stderr_errno w of None \<Rightarrow> w | Some e \<Rightarrow> w\<lparr>errno := e\<rparr>)"

text \<open>\<open>open("/dev/net/tun", O_RDWR)\<close>: a non-negative result is a new open descriptor.\<close>

definition sys_open :: "sys_env \<Rightarrow> world \<Rightarrow> int \<times> world" where
  "sys_open env w =
     (case syscall Sys_open (open_out env) w of
        (fd, w') \<Rightarrow> (fd, if fd < 0 then w' else w'\<lparr>open_fds := insert fd (open_fds w')\<rparr>))"

text \<open>
  \<open>close(fd)\<close>: a descriptor that is not open gives \<open>EBADF\<close>; an open one is
  released whatever value the call returns, as on Linux.
\<close>

definition sys_close :: "sys_env \<Rightarrow> int \<Rightarrow> world \<Rightarrow> int \<times> world" where
  "sys_close env fd w =
     (if fd \<in> open_fds w then
        (case syscall (Sys_close fd) (close_out env) w of
           (r, w') \<Rightarrow> (r, w'\<lparr>open_fds := open_fds w' - {fd}\<rparr>))
      else syscall (Sys_close fd) (- 1, EBADF) w)"

subsection \<open>\<open>create_tun\<close> and \<open>close_tun\<close>\<close>

text \<open>
  \<open>close(fd); return r;\<close> and \<open>close(fd); return errno;\<close>, the two ways a
  failing step leaves \<open>create_tun\<close> once it has printed its diagnostic.
\<close>

definition close_return ::
  "sys_env \<Rightarrow> int \<Rightarrow> int \<Rightarrow> int option \<Rightarrow> string option \<Rightarrow> world
     \<Rightarrow> int \<times> int option \<times> string option \<times> world" where
  "close_return env fd r tun_fd name w =
     (case sys_close env fd w of (_, w') \<Rightarrow> (r, tun_fd, name, w'))"

definition close_return_errno ::
  "sys_env \<Rightarrow> int \<Rightarrow> int option \<Rightarrow> string option \<Rightarrow> world
     \<Rightarrow> int \<times> int option \<times> string option \<times> world" where
  "close_return_errno env fd tun_fd name w =
     (case sys_close env fd w of (_, w') \<Rightarrow> (errno w', tun_fd, name, w'))"

text \<open>
  \<open>create_tun(tun_fd, name, name_buffer_len, persistent, uid, gid)\<close>. The result is
  the returned \<open>int\<close>, what \<open>*tun_fd\<close> and the \<open>name\<close> buffer hold afterwards,
  and the world. The request of \<open>TUNSETIFF\<close> is recorded in the trace with the
  \<open>ifr_flags\<close> and the \<open>ifr_name\<close> it carries.
\<close>

definition create_tun ::
  "sys_env \<Rightarrow> int option \<Rightarrow> string option \<Rightarrow> nat \<Rightarrow> int \<Rightarrow> uid_t \<Rightarrow> gid_t \<Rightarrow> world
     \<Rightarrow> int \<times> int option \<times> string option \<times> world" where
  "create_tun env tun_fd name name_buffer_len persistent uid gid w =
     (case tun_fd of
        None \<Rightarrow> (EINVAL, tun_fd, name, w)
      | Some _ \<Rightarrow>
     (case sys_open env w of (fd, w1) \<Rightarrow>
        if fd < 0
        then (let w1' = perror (fprintf_stderr w1) in (errno w1', tun_fd, name, w1'))
        else if (case name of None \<Rightarrow> False | Some n \<Rightarrow> IFNAMSIZ \<le> length n)
        then close_return env fd ENAMETOOLONG tun_fd name (fprintf_stderr w1)
        else
     (case syscall (Ioctl_TUNSETIFF fd (IFF_TUN OR IFF_NO_PI)
                      (case name of None \<Rightarrow> [] | Some n \<Rightarrow> n))
             (tunsetiff_out env) w1 of (res, w2) \<Rightarrow>
        if res < 0 then close_return_errno env fd tun_fd name (perror (fprintf_stderr w2))
        else
     (case syscall (Fcntl_GETFL fd) (getfl_out env) w2 of (saved_flags, w3) \<Rightarrow>
        if saved_flags < 0 then close_return_errno env fd tun_fd name (fprintf_stderr w3)
        else
     (case syscall (Fcntl_SETFL fd (saved_flags OR O_NONBLOCK)) (setfl_out env) w3 of (res, w4) \<Rightarrow>
        if res < 0 then close_return_errno env fd tun_fd name (fprintf_stderr w4)
        else
     (case (if persistent \<noteq> 0
            then syscall (Ioctl_TUNSETPERSIST fd 1) (persist_out env) w4
            else (res, w4)) of (res, w5) \<Rightarrow>
        if res < 0 then close_return_errno env fd tun_fd name (fprintf_stderr w5)
        else
     (case (if uid \<noteq> - 1
            then syscall (Ioctl_TUNSETOWNER fd uid) (owner_out env) w5
            else (res, w5)) of (res, w6) \<Rightarrow>
        if res < 0 then close_return_errno env fd tun_fd name (perror (fprintf_stderr w6))
        else
     (case (if gid \<noteq> - 1
            then syscall (Ioctl_TUNSETGROUP fd gid) (group_out env) w6
            else (res, w6)) of (res, w7) \<Rightarrow>
        if res < 0 then close_return_errno env fd tun_fd name (perror (fprintf_stderr w7))
        else if name \<noteq> None \<and> name_buffer_len \<le> length (tunsetiff_name env)
        then close_return env fd 2 tun_fd name (fprintf_stderr w7)
        else (0, Some fd,
              (case name of None \<Rightarrow> None | Some _ \<Rightarrow> Some (tunsetiff_name env)),
              w7)))))))))"

text \<open>\<open>close_tun(fd)\<close>: the returned \<open>int\<close> and the world.\<close>

definition close_tun :: "sys_env \<Rightarrow> int \<Rightarrow> world \<Rightarrow> int \<times> world" where
  "close_tun env fd w =
     (if fd \<le> 0 then (EINVAL, w)
      else (case sys_close env fd w of
              (r, w') \<Rightarrow> if r \<noteq> 0 then (errno w', w') else (0, w')))"

subsection \<open>\<open>signal_handler\<close> and \<open>infinite_loop\<close>\<close>

definition signal_handler :: "world \<Rightarrow> world" where
  "signal_handler w = w\<lparr>interrupt_flag := 1\<rparr>"

text \<open>
  One \<open>readiness\<close> is what one call of \<open>select\<close> brings: the value it returns,
  the \<open>errno\<close> it sets when that value is negative, and whether the handler of
  \<open>SIGINT\<close> or \<open>SIGTERM\<close> ran before \<open>select\<close> returned. The loop is given
  the list of the answers to come; when the list is used up the next \<open>select\<close>
  blocks for ever and the loop does not return (\<open>None\<close>).
\<close>

record readiness =
  select_ret :: int
  select_errno :: int
  signal_delivered :: bool

fun infinite_loop_while :: "int \<Rightarrow> readiness list \<Rightarrow> world \<Rightarrow> (int \<times> world) option" where
  "infinite_loop_while nfds [] w = None"
| "infinite_loop_while nfds (r # rs) w =
     (case syscall (Sys_select nfds) (select_ret r, select_errno r)
             (if signal_delivered r then signal_handler w else w) of
        (res, w') \<Rightarrow>
          if res < 0 \<and> errno w' = EINTR then Some (0, w')
          else
            (let w'' = (if res < 0 then perror w' else w');
                 res' = (if res < 0 then errno w'' else res) in
             if interrupt_flag w'' \<noteq> 0 then Some (res', fprintf_stderr w'')
             else if res' = 0 then infinite_loop_while nfds rs w''
             else Some (res', w'')))"

text \<open>
  \<open>infinite_loop(tun_fd, buffer_len)\<close>; \<open>calloc_ok\<close> tells whether the buffer
  could be allocated. The buffer is never read or written by the C code, and the C
  code issues no \<open>read\<close> and no \<open>write\<close>.
\<close>

definition infinite_loop ::
  "bool \<Rightarrow> int \<Rightarrow> nat \<Rightarrow> readiness list \<Rightarrow> world \<Rightarrow> (int \<times> world) option" where
  "infinite_loop calloc_ok tun_fd buffer_len rs w =
     (if \<not> calloc_ok then Some (ENOMEM, w)
      else infinite_loop_while (tun_fd + 1) rs w)"

subsection \<open>\<open>main\<close>\<close>

text \<open>
  \<open>getopt_long\<close> belongs to libc: the options it returns, one per call and in
  order, are the input of \<open>main\<close>. \<open>Opt_other\<close> is any value the \<open>switch\<close>
  has no \<open>case\<close> for (the \<open>'?'\<close> of an unknown option or of a missing argument);
  the end of the list is the result \<open>-1\<close>.
\<close>

datatype getopt_result =
    Opt_v
  | Opt_i string
  | Opt_e
  | Opt_f
  | Opt_p
  | Opt_u string
  | Opt_g string
  | Opt_b string
  | Opt_other

text \<open>The local variables of \<open>main\<close> that the option loop updates, and the static \<open>verbosity\<close>.\<close>

record main_vars =
  main_res :: int
  main_persistent :: int
  main_buffer_len :: int
  main_uid :: uid_t
  main_gid :: gid_t
  main_ifr_flags :: "16 word"
  main_ifr_name :: string
  verbosity :: int

text \<open>The conversion of a \<open>long\<close> to an \<open>int\<close>: the low 32 bits, read as two's complement.\<close>

definition long_to_int :: "int \<Rightarrow> int" where
  "long_to_int v = sint (word_of_int v :: 32 word)"

text \<open>
  The body of the \<open>switch\<close>. In \<open>case 'b'\<close> only the branch of a non-positive
  value ends with \<open>break\<close>: a positive value falls through into \<open>default\<close>,
  which prints the usage text and sets \<open>res = 1\<close>.
\<close>

definition main_switch ::
  "(string \<rightharpoonup> uid_t) \<Rightarrow> (string \<rightharpoonup> gid_t) \<Rightarrow> getopt_result \<Rightarrow> main_vars \<Rightarrow> main_vars" where
  "main_switch getpwnam getgrnam chr st =
     (case chr of
        Opt_v \<Rightarrow> st\<lparr>verbosity := verbosity st + 1\<rparr>
      | Opt_i optarg \<Rightarrow>
          if length optarg = 0 \<or> IFNAMSIZ \<le> length optarg
          then st\<lparr>main_res := EINVAL\<rparr>
          else st\<lparr>main_ifr_name := optarg\<rparr>
      | Opt_e \<Rightarrow> st\<lparr>main_ifr_flags := (main_ifr_flags st AND NOT IFF_TUN) OR IFF_TAP\<rparr>
      | Opt_f \<Rightarrow> st\<lparr>main_ifr_flags := main_ifr_flags st AND NOT IFF_NO_PI\<rparr>
      | Opt_p \<Rightarrow> st\<lparr>main_persistent := 1\<rparr>
      | Opt_u optarg \<Rightarrow>
          (case get_uid_by_name getpwnam (Some optarg) (Some (main_uid st)) of
             (r, idp) \<Rightarrow>
               st\<lparr>main_res := r,
                  main_uid := (case idp of None \<Rightarrow> main_uid st | Some v \<Rightarrow> v)\<rparr>)
      | Opt_g optarg \<Rightarrow>
          (case get_gid_by_name getgrnam (Some optarg) (Some (main_gid st)) of
             (r, idp) \<Rightarrow>
               st\<lparr>main_res := r,
                  main_gid := (case idp of None \<Rightarrow> main_gid st | Some v \<Rightarrow> v)\<rparr>)
      | Opt_b optarg \<Rightarrow>
          (let st' = st\<lparr>main_buffer_len := long_to_int (fst (strtol optarg))\<rparr>
           in if main_buffer_len st' \<le> 0 then st'\<lparr>main_res := EINVAL\<rparr>
              else st'\<lparr>main_res := 1\<rparr>)
      | Opt_other \<Rightarrow> st\<lparr>main_res := 1\<rparr>)"

text \<open>The \<open>do ... while (res == 0 && chr != -1)\<close> loop.\<close>

fun getopt_loop ::
  "(string \<rightharpoonup> uid_t) \<Rightarrow> (string \<rightharpoonup> gid_t) \<Rightarrow> getopt_result list \<Rightarrow> main_vars \<Rightarrow> main_vars" where
  "getopt_loop getpwnam getgrnam [] st = st"
| "getopt_loop getpwnam getgrnam (chr # rest) st =
     (let st' = main_switch getpwnam getgrnam chr st
      in if main_res st' = 0 then getopt_loop getpwnam getgrnam rest st' else st')"

text \<open>The code after the label \<open>cleanup\<close>; the invocation of \<open>close_tun\<close> is recorded in the trace.\<close>

definition cleanup :: "sys_env \<Rightarrow> int \<Rightarrow> int \<Rightarrow> world \<Rightarrow> int \<times> world" where
  "cleanup env tun_fd r w =
     (if tun_fd \<noteq> 0
      then (case close_tun env tun_fd (w\<lparr>trace := trace w @ [Call_close_tun tun_fd]\<rparr>) of
              (_, w') \<Rightarrow> (r, w'))
      else (r, w))"

text \<open>
  \<open>main\<close>: the exit status and the world at exit. \<open>euid\<close> and \<open>egid\<close> are
  what \<open>geteuid\<close> and \<open>getegid\<close> return. The first \<open>goto cleanup\<close> jumps over
  the declaration \<open>int tun_fd = 0\<close>, so that on this path the variable holds an
  indeterminate value when \<open>cleanup\<close> reads it: the parameter \<open>indeterminate\<close>.
  \<open>main\<close> never calls \<open>setup_signal_handlers\<close> or \<open>infinite_loop\<close>.
\<close>

definition main ::
  "sys_env \<Rightarrow> (string \<rightharpoonup> uid_t) \<Rightarrow> (string \<rightharpoonup> gid_t) \<Rightarrow> uid_t \<Rightarrow> gid_t \<Rightarrow> int
     \<Rightarrow> getopt_result list \<Rightarrow> world \<Rightarrow> int \<times> world" where
  "main env getpwnam getgrnam euid egid indeterminate args w =
     (let st = getopt_loop getpwnam getgrnam args
                 \<lparr>main_res = 0, main_persistent = 0, main_buffer_len = DEFAULT_BUFFER_LEN,
                  main_uid = euid, main_gid = egid, main_ifr_flags = IFF_NO_PI,
                  main_ifr_name = [], verbosity = 0\<rparr>
      in if main_res st \<noteq> 0 then cleanup env indeterminate (main_res st) w
         else
           (case create_tun env (Some 0) (Some (main_ifr_name st)) IFNAMSIZ
                   (main_persistent st) (main_uid st) (main_gid st) w of
              (r, tun_fd, name, w') \<Rightarrow>
                cleanup env (case tun_fd of None \<Rightarrow> 0 | Some fd \<Rightarrow> fd) r w'))"

subsection \<open>Concrete worlds, environments and inputs\<close>

text \<open>
  A process started with the three standard streams open, an error stream that
  takes every diagnostic without touching \<open>errno\<close>, and nothing in flight; and
  the same process started with its standard input closed (\<open>tuncat <&-\<close>).
\<close>

definition world0 :: world where
  "world0 = \<lparr>errno = 0, interrupt_flag = 0, open_fds = {0, 1, 2}, trace = [],
             stdin_pending = [], stdout_written = [], tun_pending = [], tun_written = [],
             stderr_errno = None\<rparr>"

definition world_stdin_closed :: world where
  "world_stdin_closed = world0\<lparr>open_fds := {1, 2}\<rparr>"

text \<open>The same process with two bytes waiting on its standard input.\<close>

definition world_input :: world where
  "world_input = world0\<lparr>stdin_pending := [0x45, 0x00]\<rparr>"

text \<open>
  A system on which every call succeeds: \<open>open\<close> returns descriptor 3, the kernel
  names the interface \<open>tun0\<close>, \<open>F_GETFL\<close> reports \<open>O_RDWR\<close>.
\<close>

definition env_ok :: sys_env where
  "env_ok = \<lparr>open_out = (3, 0), tunsetiff_out = (0, 0), tunsetiff_name = ''tun0'',
             getfl_out = (2, 0), setfl_out = (0, 0), persist_out = (0, 0),
             owner_out = (0, 0), group_out = (0, 0), close_out = (0, 0)\<rparr>"

text \<open>The same system when the lowest free descriptor is 0, as it is with the standard input closed.\<close>

definition env_fd0 :: sys_env where
  "env_fd0 = env_ok\<lparr>open_out := (0, 0)\<rparr>"

text \<open>A system that refuses \<open>TUNSETIFF\<close> with \<open>EPERM\<close> (1), as it does for an unprivileged caller.\<close>

definition env_eperm :: sys_env where
  "env_eperm = env_ok\<lparr>tunsetiff_out := (- 1, 1)\<rparr>"

text \<open>
  Systems on which one later step of \<open>create_tun\<close> fails: \<open>F_GETFL\<close> and
  \<open>F_SETFL\<close> with \<open>EBADF\<close> (9), \<open>TUNSETPERSIST\<close>, \<open>TUNSETOWNER\<close> and
  \<open>TUNSETGROUP\<close> with \<open>EPERM\<close> (1). And a process whose error stream is full:
  every diagnostic leaves \<open>ENOSPC\<close> (28) in \<open>errno\<close>.
\<close>

definition env_getfl_fails :: sys_env where
  "env_getfl_fails = env_ok\<lparr>getfl_out := (- 1, 9)\<rparr>"

definition env_setfl_fails :: sys_env where
  "env_setfl_fails = env_ok\<lparr>setfl_out := (- 1, 9)\<rparr>"

definition env_persist_fails :: sys_env where
  "env_persist_fails = env_ok\<lparr>persist_out := (- 1, 1)\<rparr>"

definition env_owner_fails :: sys_env where
  "env_owner_fails = env_ok\<lparr>owner_out := (- 1, 1)\<rparr>"

definition env_group_fails :: sys_env where
  "env_group_fails = env_ok\<lparr>group_out := (- 1, 1)\<rparr>"

definition world_stderr_full :: world where
  "world_stderr_full = world0\<lparr>stderr_errno := Some 28\<rparr>"

text \<open>
  Answers of \<open>select\<close>: one descriptor ready; one descriptor ready while a
  termination signal has been handled; interrupted with \<open>EINTR\<close> by a signal that
  has no handler in the program (the flag is left alone).
\<close>

definition one_ready :: readiness where
  "one_ready = \<lparr>select_ret = 1, select_errno = 0, signal_delivered = False\<rparr>"

definition one_ready_cancelled :: readiness where
  "one_ready_cancelled = \<lparr>select_ret = 1, select_errno = 0, signal_delivered = True\<rparr>"

definition interrupted :: readiness where
  "interrupted = \<lparr>select_ret = - 1, select_errno = EINTR, signal_delivered = False\<rparr>"

subsection \<open>Vocabulary for the statements about provisioning\<close>

text \<open>
  The ways \<open>create_tun\<close> can fail once the device is open, and the first of them
  that a given system and given arguments run into, read off the answers of the
  system: the requested name does not fit \<open>ifr_name\<close>; the kernel refuses
  \<open>TUNSETIFF\<close>; \<open>F_GETFL\<close> or \<open>F_SETFL\<close> fails; \<open>TUNSETPERSIST\<close> fails
  (asked for only when \<open>persistent\<close> is set); \<open>TUNSETOWNER\<close> or
  \<open>TUNSETGROUP\<close> fails (asked for only when the id is not \<open>-1\<close>); the name the
  kernel confirmed does not fit the caller's buffer. \<open>None\<close>: no step fails.
\<close>

datatype failure =
    Name_too_long
  | Request_rejected
  | Nonblocking_failed
  | Persistence_failed
  | Ownership_failed
  | Name_readback_failed

definition first_failure ::
  "sys_env \<Rightarrow> string option \<Rightarrow> nat \<Rightarrow> int \<Rightarrow> uid_t \<Rightarrow> gid_t \<Rightarrow> failure option" where
  "first_failure env name name_buffer_len persistent uid gid =
     (if (case name of None \<Rightarrow> False | Some n \<Rightarrow> IFNAMSIZ \<le> length n) then Some Name_too_long
      else if fst (tunsetiff_out env) < 0 then Some Request_rejected
      else if fst (getfl_out env) < 0 then Some Nonblocking_failed
      else if fst (setfl_out env) < 0 then Some Nonblocking_failed
      else if persistent \<noteq> 0 \<and> fst (persist_out env) < 0 then Some Persistence_failed
      else if uid \<noteq> - 1 \<and> fst (owner_out env) < 0 then Some Ownership_failed
      else if gid \<noteq> - 1 \<and> fst (group_out env) < 0 then Some Ownership_failed
      else if name \<noteq> None \<and> name_buffer_len \<le> length (tunsetiff_name env)
      then Some Name_readback_failed
      else None)"

text \<open>
  \<open>errno_sane\<close>: no call of the system or of libc sets \<open>errno\<close> to 0, as the
  C standard demands; a call that fails leaves a value other than 0 there.
  \<open>failure_result\<close>: what \<open>create_tun\<close> returns for each failure, a constant
  for the two name checks and \<open>errno\<close> as it is at the return otherwise.
\<close>

definition sets_errno :: "int \<times> int \<Rightarrow> bool" where
  "sets_errno out = (0 \<le> fst out \<or> snd out \<noteq> 0)"

definition errno_sane :: "sys_env \<Rightarrow> world \<Rightarrow> bool" where
  "errno_sane env w =
     (sets_errno (tunsetiff_out env) \<and> sets_errno (getfl_out env) \<and>
      sets_errno (setfl_out env) \<and> sets_errno (persist_out env) \<and>
      sets_errno (owner_out env) \<and> sets_errno (group_out env) \<and>
      sets_errno (close_out env) \<and> stderr_errno w \<noteq> Some 0)"

definition failure_result :: "failure \<Rightarrow> world \<Rightarrow> int" where
  "failure_result cause w' =
     (case cause of Name_too_long \<Rightarrow> ENAMETOOLONG | Name_readback_failed \<Rightarrow> 2 | _ \<Rightarrow> errno w')"

subsection \<open>Vocabulary for the statements about owner strings\<close>

text \<open>
  A decimal string in three parts: leading white space \<open>ws\<close>, an optional sign
  \<open>sg\<close>, and one or more digits \<open>ds\<close> with nothing after them; and the
  number such a string denotes.
\<close>

definition decimal_parts :: "string \<Rightarrow> string \<Rightarrow> string \<Rightarrow> bool" where
  "decimal_parts ws sg ds =
     (list_all isspace ws \<and> (sg = [] \<or> sg = ''+'' \<or> sg = ''-'') \<and>
      ds \<noteq> [] \<and> list_all isdigit ds)"

definition signed_value :: "string \<Rightarrow> string \<Rightarrow> int" where
  "signed_value sg ds = (if sg = ''-'' then - dec_value 0 ds else dec_value 0 ds)"

text \<open>
  What resolving a name through the identity directory gives: \<open>EINVAL\<close> and the
  id left as it was for a name the directory does not know, 0 and the directory's id
  otherwise.
\<close>

definition directory_result ::
  "(string \<rightharpoonup> 32 word) \<Rightarrow> string \<Rightarrow> 32 word \<Rightarrow> int \<times> 32 word option" where
  "directory_result dir s old =
     (case dir s of None \<Rightarrow> (EINVAL, Some old) | Some i \<Rightarrow> (0, Some i))"

text \<open>A directory that knows \<open>root\<close> only.\<close>

definition passwd0 :: "string \<rightharpoonup> uid_t" where
  "passwd0 = [''root'' \<mapsto> 0]"

section \<open>Properties\<close>

lemmas header_consts = EINTR_def EBADF_def ENOMEM_def EINVAL_def ERANGE_def ENAMETOOLONG_def
  IFF_TUN_def IFF_TAP_def IFF_NO_PI_def IFNAMSIZ_def O_NONBLOCK_def LONG_MAX_def LONG_MIN_def
  UINT_MAX_def DEFAULT_BUFFER_LEN_def

lemmas program_defs = main_def cleanup_def close_tun_def create_tun_def close_return_def
  close_return_errno_def sys_open_def sys_close_def syscall_def fprintf_stderr_def perror_def
  main_switch_def
  get_uid_by_name_def get_gid_by_name_def strtol_def isspace_def isdigit_def digit_val_def
  long_to_int_def

subsection \<open>The forwarding loop\<close>

lemma infinite_loop_while_streams:
  "infinite_loop_while nfds rs w = Some (r, w') \<Longrightarrow>
     stdin_pending w' = stdin_pending w \<and> stdout_written w' = stdout_written w \<and>
     tun_pending w' = tun_pending w \<and> tun_written w' = tun_written w"
proof (induction rs arbitrary: w)
  case Nil
  then show ?case by simp
next
  case (Cons a rs)
  then show ?case
    by (auto simp: syscall_def signal_handler_def fprintf_stderr_def perror_def Let_def
        split: if_splits option.splits)
qed

text \<open>
  Claim C1, as the code has it. The claim asks that every byte sequence supplied on
  the input stream reaches the device's write side unmodified and in order, and
  every frame of the device the output stream. \<open>infinite_loop\<close> only waits for
  readiness: it issues no \<open>read\<close> and no \<open>write\<close>. So whenever it returns, the
  bytes waiting on the input stream, the frames waiting in the device, and what has
  been written to the output stream and to the device are exactly what they were
  when it was called: nothing is forwarded, in either direction.
\<close>

theorem infinite_loop_transfers_nothing:
  "infinite_loop calloc_ok tun_fd buffer_len rs w = Some (r, w') \<Longrightarrow>
     stdin_pending w' = stdin_pending w \<and> stdout_written w' = stdout_written w \<and>
     tun_pending w' = tun_pending w \<and> tun_written w' = tun_written w"
  by (auto simp: infinite_loop_def split: if_splits dest: infinite_loop_while_streams)

theorem infinite_loop_transfers_nothing_witness:
  "infinite_loop True 3 65536 [one_ready] world_input =
     Some (1, world_input\<lparr>trace := [Sys_select 4]\<rparr>) \<and>
   stdin_pending (world_input\<lparr>trace := [Sys_select 4]\<rparr>) = stdin_pending world_input \<and>
   stdout_written (world_input\<lparr>trace := [Sys_select 4]\<rparr>) = stdout_written world_input \<and>
   tun_pending (world_input\<lparr>trace := [Sys_select 4]\<rparr>) = tun_pending world_input \<and>
   tun_written (world_input\<lparr>trace := [Sys_select 4]\<rparr>) = tun_written world_input"
proof -
  have run: "infinite_loop True 3 65536 [one_ready] world_input =
      Some (1, world_input\<lparr>trace := [Sys_select 4]\<rparr>)"
    by (simp add: infinite_loop_def one_ready_def world_input_def world0_def syscall_def EINTR_def
        fprintf_stderr_def perror_def)
  from infinite_loop_transfers_nothing [OF run] run show ?thesis by simp
qed

text \<open>
  Claim C1 as stated fails: with the two bytes \<open>0x45 0x00\<close> waiting on the input
  stream and \<open>select\<close> reporting one descriptor ready, the loop returns 1, the
  device has been written nothing and the two bytes are still waiting.
\<close>

theorem infinite_loop_forwarding_counterexample:
  "stdin_pending world_input = [0x45, 0x00] \<and>
   map_option fst (infinite_loop True 3 65536 [one_ready] world_input) = Some 1 \<and>
   map_option (tun_written \<circ> snd) (infinite_loop True 3 65536 [one_ready] world_input) = Some [] \<and>
   map_option (stdin_pending \<circ> snd) (infinite_loop True 3 65536 [one_ready] world_input)
     = Some [0x45, 0x00]"
  by (simp add: infinite_loop_def one_ready_def world_input_def world0_def syscall_def EINTR_def
        fprintf_stderr_def perror_def)

text \<open>
  Claim C3 asks that the loop, once it observes the cancellation flag set after a
  readiness wait, returns 0 however many descriptors the wait reported ready. The
  code leaves the loop in that iteration but returns \<open>res\<close>, which at that point
  holds what \<open>select\<close> returned: with one descriptor ready and the flag set by
  the handler, \<open>infinite_loop\<close> returns 1. Only the \<open>EINTR\<close> branch resets
  \<open>res\<close> to 0 before its \<open>break\<close>.
\<close>

theorem infinite_loop_cancel_returns_ready_count:
  "map_option fst (infinite_loop True 3 65536 [one_ready_cancelled] world0) = Some 1 \<and>
   map_option (interrupt_flag \<circ> snd) (infinite_loop True 3 65536 [one_ready_cancelled] world0)
     = Some 1"
  by (simp add: infinite_loop_def one_ready_cancelled_def world0_def syscall_def EINTR_def
      signal_handler_def fprintf_stderr_def perror_def)

text \<open>
  What does hold of cancellation: when the flag is set once \<open>select\<close> has
  returned, the loop leaves after that one \<open>select\<close>; what it returns is 0
  only when \<open>select\<close> returned 0 or was interrupted, and after a failed
  \<open>select\<close> it is \<open>errno\<close> as \<open>perror\<close> left it.
\<close>

lemma infinite_loop_cancel_leaves:
  "interrupt_flag w \<noteq> 0 \<or> signal_delivered r \<Longrightarrow>
     map_option (trace \<circ> snd) (infinite_loop True tun_fd buffer_len (r # rs) w)
       = Some (trace w @ [Sys_select (tun_fd + 1)])"
  by (auto simp: infinite_loop_def syscall_def signal_handler_def fprintf_stderr_def perror_def
      Let_def split: option.splits)

lemma infinite_loop_cancel_result:
  "interrupt_flag w \<noteq> 0 \<or> signal_delivered r \<Longrightarrow>
     map_option fst (infinite_loop True tun_fd buffer_len (r # rs) w)
       = Some (if select_ret r < 0
               then (if select_errno r = EINTR then 0
                     else (case stderr_errno w of None \<Rightarrow> select_errno r | Some e \<Rightarrow> e))
               else select_ret r)"
  by (auto simp: infinite_loop_def syscall_def signal_handler_def fprintf_stderr_def perror_def
      Let_def split: option.splits)

text \<open>
  Claim C4, as the code has it. A readiness wait interrupted by a signal
  (\<open>select\<close> negative, \<open>errno = EINTR\<close>) is not fatal, but it ends the loop: the
  code sets \<open>res = 0\<close> and leaves with \<open>break\<close>, whether or not the
  cancellation flag is set. \<open>infinite_loop\<close> returns 0 after exactly that one
  \<open>select\<close>, whatever the later waits would have brought.
\<close>

theorem infinite_loop_eintr_exits:
  "select_ret r < 0 \<Longrightarrow> select_errno r = EINTR \<Longrightarrow>
     map_option fst (infinite_loop True tun_fd buffer_len (r # rs) w) = Some 0 \<and>
     map_option (trace \<circ> snd) (infinite_loop True tun_fd buffer_len (r # rs) w)
       = Some (trace w @ [Sys_select (tun_fd + 1)])"
  by (simp add: infinite_loop_def syscall_def signal_handler_def)

theorem infinite_loop_eintr_exits_witness:
  "select_ret interrupted < 0 \<and> select_errno interrupted = EINTR \<and>
     map_option fst (infinite_loop True 3 65536 [interrupted, one_ready] world0) = Some 0 \<and>
     map_option (trace \<circ> snd) (infinite_loop True 3 65536 [interrupted, one_ready] world0)
       = Some (trace world0 @ [Sys_select (3 + 1)])"
  using infinite_loop_eintr_exits [of interrupted 3 65536 "[one_ready]" world0]
  by (simp add: interrupted_def)

text \<open>
  Claim C4 as stated fails: the flag is not set, the first wait is interrupted and a
  second answer of \<open>select\<close> is there to be had, yet the loop returns 0 with one
  \<open>select\<close> in its trace. It did not poll again.
\<close>

theorem infinite_loop_eintr_counterexample:
  "interrupt_flag world0 = 0 \<and>
   infinite_loop True 3 65536 [interrupted, one_ready] world0 =
     Some (0, world0\<lparr>errno := EINTR, trace := [Sys_select 4]\<rparr>)"
  by (simp add: infinite_loop_def interrupted_def world0_def syscall_def)

subsection \<open>Releasing the device\<close>

text \<open>
  Claim C9. \<open>close_tun\<close> called with a descriptor that cannot be an acquired
  handle (\<open>fd \<le> 0\<close>) returns \<open>EINVAL\<close>, which is not 0, and issues no system
  call: the world is left as it was.
\<close>

theorem close_tun_rejects_nonpositive:
  "fd \<le> 0 \<Longrightarrow> close_tun env fd w = (EINVAL, w) \<and> EINVAL \<noteq> 0"
  by (simp add: close_tun_def EINVAL_def)

theorem close_tun_rejects_nonpositive_witness:
  "(0::int) \<le> 0 \<and> close_tun env_ok 0 world0 = (EINVAL, world0) \<and> EINVAL \<noteq> 0"
  using close_tun_rejects_nonpositive [of 0 env_ok world0] by simp

text \<open>A positive descriptor that is not open, such as one already released, is reported with \<open>EBADF\<close>.\<close>

lemma close_tun_released_descriptor:
  "0 < fd \<Longrightarrow> fd \<notin> open_fds w \<Longrightarrow> fst (close_tun env fd w) = EBADF"
  by (simp add: close_tun_def sys_close_def syscall_def)

subsection \<open>Provisioning the device\<close>

text \<open>
  Claim C10. \<open>create_tun\<close> called with \<open>tun_fd == NULL\<close> returns \<open>EINVAL\<close>
  at once: the world is unchanged, so the interface-control device has not been
  opened and no request has been issued, and the name buffer is untouched.
\<close>

theorem create_tun_null_pointer:
  "create_tun env None name name_buffer_len persistent uid gid w = (EINVAL, None, name, w)"
  by (simp add: create_tun_def)

text \<open>What the system calls and the diagnostics do to the world.\<close>

lemma fst_syscall: "fst (syscall ev out w) = fst out"
  by (simp add: syscall_def)

lemma fst_sys_open: "fst (sys_open env w) = fst (open_out env)"
  by (simp add: sys_open_def syscall_def split: prod.splits)

lemma open_fds_fprintf_stderr: "open_fds (fprintf_stderr w) = open_fds w"
  by (simp add: fprintf_stderr_def split: option.splits)

lemma open_fds_perror: "open_fds (perror w) = open_fds w"
  by (simp add: perror_def split: option.splits)

lemma open_fds_syscall: "open_fds (snd (syscall ev out w)) = open_fds w"
  by (simp add: syscall_def)

lemma open_fds_sys_open:
  "open_fds (snd (sys_open env w)) =
     (if fst (open_out env) < 0 then open_fds w else insert (fst (open_out env)) (open_fds w))"
  by (simp add: sys_open_def syscall_def split: prod.splits)

lemma open_fds_sys_close: "open_fds (snd (sys_close env fd w)) = open_fds w - {fd}"
  by (simp add: sys_close_def syscall_def split: prod.splits)

lemma trace_sys_close: "trace (snd (sys_close env fd w)) = trace w @ [Sys_close fd]"
  by (simp add: sys_close_def syscall_def split: prod.splits)

lemma close_return_eq:
  "close_return env fd r tun_fd name w = (r, tun_fd, name, snd (sys_close env fd w))"
  by (simp add: close_return_def split: prod.splits)

lemma close_return_errno_eq:
  "close_return_errno env fd tun_fd name w =
     (errno (snd (sys_close env fd w)), tun_fd, name, snd (sys_close env fd w))"
  by (simp add: close_return_errno_def split: prod.splits)

lemmas peel = fst_syscall fst_sys_open open_fds_fprintf_stderr open_fds_perror open_fds_syscall
  open_fds_sys_open open_fds_sys_close trace_sys_close close_return_eq close_return_errno_eq

lemma create_tun_by_cause:
  assumes "0 \<le> fst (open_out env)"
    and "first_failure env name name_buffer_len persistent uid gid = Some cause"
  shows "case create_tun env (Some v) name name_buffer_len persistent uid gid w of
           (r, tun_fd', name', w') \<Rightarrow>
             r = failure_result cause w' \<and>
             fst (open_out env) \<notin> open_fds w' \<and>
             open_fds w' = open_fds w - {fst (open_out env)} \<and>
             last (trace w') = Sys_close (fst (open_out env)) \<and>
             tun_fd' = Some v \<and> name' = name"
  using assms(2) unfolding first_failure_def
  apply (simp only: split: if_splits)
         apply (use assms(1) in \<open>auto simp: create_tun_def case_prod_beta peel failure_result_def\<close>)
  done

lemma errno_syscall: "errno (snd (syscall ev out w)) = (if fst out < 0 then snd out else errno w)"
  by (simp add: syscall_def)

lemma errno_fprintf_stderr:
  "errno (fprintf_stderr w) = (case stderr_errno w of None \<Rightarrow> errno w | Some e \<Rightarrow> e)"
  by (simp add: fprintf_stderr_def split: option.splits)

lemma errno_perror:
  "errno (perror w) = (case stderr_errno w of None \<Rightarrow> errno w | Some e \<Rightarrow> e)"
  by (simp add: perror_def split: option.splits)

lemma errno_sys_close:
  "errno (snd (sys_close env fd w)) =
     (if fd \<in> open_fds w
      then (if fst (close_out env) < 0 then snd (close_out env) else errno w)
      else EBADF)"
  by (simp add: sys_close_def syscall_def split: prod.splits)

lemma stderr_errno_fprintf_stderr: "stderr_errno (fprintf_stderr w) = stderr_errno w"
  by (simp add: fprintf_stderr_def split: option.splits)

lemma stderr_errno_perror: "stderr_errno (perror w) = stderr_errno w"
  by (simp add: perror_def split: option.splits)

lemma stderr_errno_syscall: "stderr_errno (snd (syscall ev out w)) = stderr_errno w"
  by (simp add: syscall_def)

lemma stderr_errno_sys_open: "stderr_errno (snd (sys_open env w)) = stderr_errno w"
  by (simp add: sys_open_def syscall_def split: prod.splits)

lemmas peel_errno = errno_syscall errno_fprintf_stderr errno_perror errno_sys_close
  stderr_errno_fprintf_stderr stderr_errno_perror stderr_errno_syscall stderr_errno_sys_open

lemma sets_errnoD: "sets_errno out \<Longrightarrow> fst out < 0 \<Longrightarrow> snd out \<noteq> 0"
  by (auto simp: sets_errno_def)

lemma create_tun_error_nonzero:
  assumes "0 \<le> fst (open_out env)"
    and "first_failure env name name_buffer_len persistent uid gid = Some cause"
    and "errno_sane env w"
  shows "fst (create_tun env (Some v) name name_buffer_len persistent uid gid w) \<noteq> 0"
proof -
  from assms(3) have e:
    "fst (tunsetiff_out env) < 0 \<Longrightarrow> snd (tunsetiff_out env) \<noteq> 0"
    "fst (getfl_out env) < 0 \<Longrightarrow> snd (getfl_out env) \<noteq> 0"
    "fst (setfl_out env) < 0 \<Longrightarrow> snd (setfl_out env) \<noteq> 0"
    "fst (persist_out env) < 0 \<Longrightarrow> snd (persist_out env) \<noteq> 0"
    "fst (owner_out env) < 0 \<Longrightarrow> snd (owner_out env) \<noteq> 0"
    "fst (group_out env) < 0 \<Longrightarrow> snd (group_out env) \<noteq> 0"
    "fst (close_out env) < 0 \<Longrightarrow> snd (close_out env) \<noteq> 0"
    "\<And>x. stderr_errno w = Some x \<Longrightarrow> x \<noteq> 0"
    by (auto simp: errno_sane_def sets_errnoD)
  show ?thesis
    using assms(2) unfolding first_failure_def
    apply (simp only: split: if_splits)
           apply (use assms(1) e in \<open>simp_all add: create_tun_def case_prod_beta peel peel_errno
              ENAMETOOLONG_def split: option.splits\<close>)
    done
qed

lemma create_tun_success:
  assumes "0 \<le> fst (open_out env)"
    and "first_failure env name name_buffer_len persistent uid gid = None"
  shows "case create_tun env (Some v) name name_buffer_len persistent uid gid w of
           (r, tun_fd', name', w') \<Rightarrow>
             r = 0 \<and> tun_fd' = Some (fst (open_out env)) \<and>
             name' = map_option (\<lambda>_. tunsetiff_name env) name \<and>
             open_fds w' = insert (fst (open_out env)) (open_fds w)"
  using assms(2) unfolding first_failure_def
  apply (simp only: split: if_splits)
  apply (use assms(1) in \<open>auto simp: create_tun_def case_prod_beta peel split: option.splits\<close>)
  done

lemmas witness_defs = first_failure_def errno_sane_def sets_errno_def failure_result_def
  env_ok_def env_eperm_def env_getfl_fails_def env_setfl_fails_def env_persist_fails_def
  env_owner_fails_def env_group_fails_def world0_def world_stderr_full_def IFNAMSIZ_def
  ENAMETOOLONG_def create_tun_def close_return_def close_return_errno_def sys_open_def
  sys_close_def syscall_def fprintf_stderr_def perror_def

text \<open>
  Claim C5. Take a call of \<open>create_tun\<close> with a non-null \<open>tun_fd\<close> in which
  \<open>open\<close> succeeded (its result is not negative).
  \<^item> If a step fails (the name is too long, the kernel refuses \<open>TUNSETIFF\<close>,
    \<open>F_GETFL\<close> or \<open>F_SETFL\<close> fails, \<open>TUNSETPERSIST\<close> fails,
    \<open>TUNSETOWNER\<close> or \<open>TUNSETGROUP\<close> fails, or the confirmed name does not
    fit the buffer), the function returns the error of that step
    (\<open>ENAMETOOLONG\<close>, 2, or \<open>errno\<close>), which is not 0 on a system that never
    sets \<open>errno\<close> to 0; the descriptor is not open when the function returns,
    \<open>close\<close> of that descriptor is the last system call issued, and neither
    \<open>*tun_fd\<close> nor the name buffer has been written.
  \<^item> If no step fails the function returns 0, stores the descriptor and leaves it open.
  \<^item> So whenever the function returns anything but 0, the descriptor has been closed.
\<close>

theorem create_tun_failure_closes:
  assumes "create_tun env (Some v) name name_buffer_len persistent uid gid w = (r, tun_fd', name', w')"
    and "0 \<le> fst (open_out env)"
  shows
    "(first_failure env name name_buffer_len persistent uid gid = Some cause \<longrightarrow>
        r = failure_result cause w' \<and> (errno_sane env w \<longrightarrow> r \<noteq> 0) \<and>
        fst (open_out env) \<notin> open_fds w' \<and>
        open_fds w' = open_fds w - {fst (open_out env)} \<and>
        last (trace w') = Sys_close (fst (open_out env)) \<and>
        tun_fd' = Some v \<and> name' = name) \<and>
     (first_failure env name name_buffer_len persistent uid gid = None \<longrightarrow>
        r = 0 \<and> tun_fd' = Some (fst (open_out env)) \<and>
        open_fds w' = insert (fst (open_out env)) (open_fds w)) \<and>
     (r \<noteq> 0 \<longrightarrow>
        fst (open_out env) \<notin> open_fds w' \<and>
        open_fds w' = open_fds w - {fst (open_out env)} \<and>
        last (trace w') = Sys_close (fst (open_out env)) \<and>
        tun_fd' = Some v \<and> name' = name)"
proof -
  have failing: "r = failure_result c w' \<and> (errno_sane env w \<longrightarrow> r \<noteq> 0) \<and>
        fst (open_out env) \<notin> open_fds w' \<and>
        open_fds w' = open_fds w - {fst (open_out env)} \<and>
        last (trace w') = Sys_close (fst (open_out env)) \<and>
        tun_fd' = Some v \<and> name' = name"
    if c: "first_failure env name name_buffer_len persistent uid gid = Some c" for c
    using create_tun_by_cause [OF assms(2) c, where v = v and w = w]
      create_tun_error_nonzero [OF assms(2) c, where v = v and w = w] assms(1)
    by simp
  have succeeding: "r = 0 \<and> tun_fd' = Some (fst (open_out env)) \<and>
        open_fds w' = insert (fst (open_out env)) (open_fds w)"
    if n: "first_failure env name name_buffer_len persistent uid gid = None"
    using create_tun_success [OF assms(2) n, where v = v and w = w] assms(1) by simp
  show ?thesis
  proof (cases "first_failure env name name_buffer_len persistent uid gid")
    case None
    with succeeding show ?thesis by simp
  next
    case (Some c)
    with failing [OF Some] show ?thesis by auto
  qed
qed

theorem create_tun_failure_closes_witness:
  "(0 \<le> fst (open_out env_ok) \<and> errno_sane env_ok world0 \<and>
   first_failure env_ok (Some ''0123456789abcdef'') 16 0 1000 1000 = Some Name_too_long \<and>
   fst (create_tun env_ok (Some 0) (Some ''0123456789abcdef'') 16 0 1000 1000 world0) = ENAMETOOLONG \<and>
   ENAMETOOLONG \<noteq> (0::int) \<and>
   open_fds (snd (snd (snd (create_tun env_ok (Some 0) (Some ''0123456789abcdef'') 16 0 1000 1000 world0))))
     = {0, 1, 2}) \<and>
  (0 \<le> fst (open_out env_eperm) \<and> errno_sane env_eperm world0 \<and>
   first_failure env_eperm (Some []) 16 0 1000 1000 = Some Request_rejected \<and>
   fst (create_tun env_eperm (Some 0) (Some []) 16 0 1000 1000 world0) = 1 \<and>
   1 \<noteq> (0::int) \<and>
   open_fds (snd (snd (snd (create_tun env_eperm (Some 0) (Some []) 16 0 1000 1000 world0))))
     = {0, 1, 2}) \<and>
  (0 \<le> fst (open_out env_eperm) \<and> errno_sane env_eperm world_stderr_full \<and>
   first_failure env_eperm (Some []) 16 0 1000 1000 = Some Request_rejected \<and>
   fst (create_tun env_eperm (Some 0) (Some []) 16 0 1000 1000 world_stderr_full) = 28 \<and>
   28 \<noteq> (0::int) \<and>
   open_fds (snd (snd (snd (create_tun env_eperm (Some 0) (Some []) 16 0 1000 1000 world_stderr_full))))
     = {0, 1, 2}) \<and>
  (0 \<le> fst (open_out env_getfl_fails) \<and> errno_sane env_getfl_fails world0 \<and>
   first_failure env_getfl_fails (Some []) 16 0 1000 1000 = Some Nonblocking_failed \<and>
   fst (create_tun env_getfl_fails (Some 0) (Some []) 16 0 1000 1000 world0) = 9 \<and>
   9 \<noteq> (0::int) \<and>
   open_fds (snd (snd (snd (create_tun env_getfl_fails (Some 0) (Some []) 16 0 1000 1000 world0))))
     = {0, 1, 2}) \<and>
  (0 \<le> fst (open_out env_setfl_fails) \<and> errno_sane env_setfl_fails world0 \<and>
   first_failure env_setfl_fails (Some []) 16 0 1000 1000 = Some Nonblocking_failed \<and>
   fst (create_tun env_setfl_fails (Some 0) (Some []) 16 0 1000 1000 world0) = 9 \<and>
   9 \<noteq> (0::int) \<and>
   open_fds (snd (snd (snd (create_tun env_setfl_fails (Some 0) (Some []) 16 0 1000 1000 world0))))
     = {0, 1, 2}) \<and>
  (0 \<le> fst (open_out env_persist_fails) \<and> errno_sane env_persist_fails world0 \<and>
   first_failure env_persist_fails (Some []) 16 1 1000 1000 = Some Persistence_failed \<and>
   fst (create_tun env_persist_fails (Some 0) (Some []) 16 1 1000 1000 world0) = 1 \<and>
   1 \<noteq> (0::int) \<and>
   open_fds (snd (snd (snd (create_tun env_persist_fails (Some 0) (Some []) 16 1 1000 1000 world0))))
     = {0, 1, 2}) \<and>
  (0 \<le> fst (open_out env_owner_fails) \<and> errno_sane env_owner_fails world0 \<and>
   first_failure env_owner_fails (Some []) 16 0 1000 1000 = Some Ownership_failed \<and>
   fst (create_tun env_owner_fails (Some 0) (Some []) 16 0 1000 1000 world0) = 1 \<and>
   1 \<noteq> (0::int) \<and>
   open_fds (snd (snd (snd (create_tun env_owner_fails (Some 0) (Some []) 16 0 1000 1000 world0))))
     = {0, 1, 2}) \<and>
  (0 \<le> fst (open_out env_group_fails) \<and> errno_sane env_group_fails world0 \<and>
   first_failure env_group_fails (Some []) 16 0 1000 1000 = Some Ownership_failed \<and>
   fst (create_tun env_group_fails (Some 0) (Some []) 16 0 1000 1000 world0) = 1 \<and>
   1 \<noteq> (0::int) \<and>
   open_fds (snd (snd (snd (create_tun env_group_fails (Some 0) (Some []) 16 0 1000 1000 world0))))
     = {0, 1, 2}) \<and>
  (0 \<le> fst (open_out env_ok) \<and> errno_sane env_ok world0 \<and>
   first_failure env_ok (Some []) 4 0 1000 1000 = Some Name_readback_failed \<and>
   fst (create_tun env_ok (Some 0) (Some []) 4 0 1000 1000 world0) = 2 \<and>
   2 \<noteq> (0::int) \<and>
   open_fds (snd (snd (snd (create_tun env_ok (Some 0) (Some []) 4 0 1000 1000 world0))))
     = {0, 1, 2}) \<and>
  (0 \<le> fst (open_out env_ok) \<and>
   first_failure env_ok (Some []) 16 0 1000 1000 = None \<and>
   fst (create_tun env_ok (Some 0) (Some []) 16 0 1000 1000 world0) = 0 \<and>
   open_fds (snd (snd (snd (create_tun env_ok (Some 0) (Some []) 16 0 1000 1000 world0))))
     = {0, 1, 2, 3})"
proof -
  have tuple: "x = (fst x, fst (snd x), fst (snd (snd x)), snd (snd (snd x)))"
    for x :: "int \<times> int option \<times> string option \<times> world"
    by simp
  have c0:
    "0 \<le> fst (open_out env_ok) \<and> errno_sane env_ok world0 \<and>
     first_failure env_ok (Some ''0123456789abcdef'') 16 0 1000 1000 = Some Name_too_long \<and>
     fst (create_tun env_ok (Some 0) (Some ''0123456789abcdef'') 16 0 1000 1000 world0) = ENAMETOOLONG \<and>
     ENAMETOOLONG \<noteq> (0::int) \<and>
     open_fds (snd (snd (snd (create_tun env_ok (Some 0) (Some ''0123456789abcdef'') 16 0 1000 1000 world0))))
       = {0, 1, 2}"
    using create_tun_failure_closes [OF tuple, where env = env_ok and v = 0
        and name = "Some ''0123456789abcdef''" and name_buffer_len = 16 and persistent = 0
        and uid = 1000 and gid = 1000 and w = world0 and cause = Name_too_long]
    by (simp add: witness_defs)
  have c1:
    "0 \<le> fst (open_out env_eperm) \<and> errno_sane env_eperm world0 \<and>
     first_failure env_eperm (Some []) 16 0 1000 1000 = Some Request_rejected \<and>
     fst (create_tun env_eperm (Some 0) (Some []) 16 0 1000 1000 world0) = 1 \<and>
     1 \<noteq> (0::int) \<and>
     open_fds (snd (snd (snd (create_tun env_eperm (Some 0) (Some []) 16 0 1000 1000 world0))))
       = {0, 1, 2}"
    using create_tun_failure_closes [OF tuple, where env = env_eperm and v = 0
        and name = "Some []" and name_buffer_len = 16 and persistent = 0
        and uid = 1000 and gid = 1000 and w = world0 and cause = Request_rejected]
    by (simp add: witness_defs)
  have c2:
    "0 \<le> fst (open_out env_eperm) \<and> errno_sane env_eperm world_stderr_full \<and>
     first_failure env_eperm (Some []) 16 0 1000 1000 = Some Request_rejected \<and>
     fst (create_tun env_eperm (Some 0) (Some []) 16 0 1000 1000 world_stderr_full) = 28 \<and>
     28 \<noteq> (0::int) \<and>
     open_fds (snd (snd (snd (create_tun env_eperm (Some 0) (Some []) 16 0 1000 1000 world_stderr_full))))
       = {0, 1, 2}"
    using create_tun_failure_closes [OF tuple, where env = env_eperm and v = 0
        and name = "Some []" and name_buffer_len = 16 and persistent = 0
        and uid = 1000 and gid = 1000 and w = world_stderr_full and cause = Request_rejected]
    by (simp add: witness_defs)
  have c3:
    "0 \<le> fst (open_out env_getfl_fails) \<and> errno_sane env_getfl_fails world0 \<and>
     first_failure env_getfl_fails (Some []) 16 0 1000 1000 = Some Nonblocking_failed \<and>
     fst (create_tun env_getfl_fails (Some 0) (Some []) 16 0 1000 1000 world0) = 9 \<and>
     9 \<noteq> (0::int) \<and>
     open_fds (snd (snd (snd (create_tun env_getfl_fails (Some 0) (Some []) 16 0 1000 1000 world0))))
       = {0, 1, 2}"
    using create_tun_failure_closes [OF tuple, where env = env_getfl_fails and v = 0
        and name = "Some []" and name_buffer_len = 16 and persistent = 0
        and uid = 1000 and gid = 1000 and w = world0 and cause = Nonblocking_failed]
    by (simp add: witness_defs)
  have c4:
    "0 \<le> fst (open_out env_setfl_fails) \<and> errno_sane env_setfl_fails world0 \<and>
     first_failure env_setfl_fails (Some []) 16 0 1000 1000 = Some Nonblocking_failed \<and>
     fst (create_tun env_setfl_fails (Some 0) (Some []) 16 0 1000 1000 world0) = 9 \<and>
     9 \<noteq> (0::int) \<and>
     open_fds (snd (snd (snd (create_tun env_setfl_fails (Some 0) (Some []) 16 0 1000 1000 world0))))
       = {0, 1, 2}"
    using create_tun_failure_closes [OF tuple, where env = env_setfl_fails and v = 0
        and name = "Some []" and name_buffer_len = 16 and persistent = 0
        and uid = 1000 and gid = 1000 and w = world0 and cause = Nonblocking_failed]
    by (simp add: witness_defs)
  have c5:
    "0 \<le> fst (open_out env_persist_fails) \<and> errno_sane env_persist_fails world0 \<and>
     first_failure env_persist_fails (Some []) 16 1 1000 1000 = Some Persistence_failed \<and>
     fst (create_tun env_persist_fails (Some 0) (Some []) 16 1 1000 1000 world0) = 1 \<and>
     1 \<noteq> (0::int) \<and>
     open_fds (snd (snd (snd (create_tun env_persist_fails (Some 0) (Some []) 16 1 1000 1000 world0))))
       = {0, 1, 2}"
    using create_tun_failure_closes [OF tuple, where env = env_persist_fails and v = 0
        and name = "Some []" and name_buffer_len = 16 and persistent = 1
        and uid = 1000 and gid = 1000 and w = world0 and cause = Persistence_failed]
    by (simp add: witness_defs)
  have c6:
    "0 \<le> fst (open_out env_owner_fails) \<and> errno_sane env_owner_fails world0 \<and>
     first_failure env_owner_fails (Some []) 16 0 1000 1000 = Some Ownership_failed \<and>
     fst (create_tun env_owner_fails (Some 0) (Some []) 16 0 1000 1000 world0) = 1 \<and>
     1 \<noteq> (0::int) \<and>
     open_fds (snd (snd (snd (create_tun env_owner_fails (Some 0) (Some []) 16 0 1000 1000 world0))))
       = {0, 1, 2}"
    using create_tun_failure_closes [OF tuple, where env = env_owner_fails and v = 0
        and name = "Some []" and name_buffer_len = 16 and persistent = 0
        and uid = 1000 and gid = 1000 and w = world0 and cause = Ownership_failed]
    by (simp add: witness_defs)
  have c7:
    "0 \<le> fst (open_out env_group_fails) \<and> errno_sane env_group_fails world0 \<and>
     first_failure env_group_fails (Some []) 16 0 1000 1000 = Some Ownership_failed \<and>
     fst (create_tun env_group_fails (Some 0) (Some []) 16 0 1000 1000 world0) = 1 \<and>
     1 \<noteq> (0::int) \<and>
     open_fds (snd (snd (snd (create_tun env_group_fails (Some 0) (Some []) 16 0 1000 1000 world0))))
       = {0, 1, 2}"
    using create_tun_failure_closes [OF tuple, where env = env_group_fails and v = 0
        and name = "Some []" and name_buffer_len = 16 and persistent = 0
        and uid = 1000 and gid = 1000 and w = world0 and cause = Ownership_failed]
    by (simp add: witness_defs)
  have c8:
    "0 \<le> fst (open_out env_ok) \<and> errno_sane env_ok world0 \<and>
     first_failure env_ok (Some []) 4 0 1000 1000 = Some Name_readback_failed \<and>
     fst (create_tun env_ok (Some 0) (Some []) 4 0 1000 1000 world0) = 2 \<and>
     2 \<noteq> (0::int) \<and>
     open_fds (snd (snd (snd (create_tun env_ok (Some 0) (Some []) 4 0 1000 1000 world0))))
       = {0, 1, 2}"
    using create_tun_failure_closes [OF tuple, where env = env_ok and v = 0
        and name = "Some []" and name_buffer_len = 4 and persistent = 0
        and uid = 1000 and gid = 1000 and w = world0 and cause = Name_readback_failed]
    by (simp add: witness_defs)
  have ok:
    "0 \<le> fst (open_out env_ok) \<and>
     first_failure env_ok (Some []) 16 0 1000 1000 = None \<and>
     fst (create_tun env_ok (Some 0) (Some []) 16 0 1000 1000 world0) = 0 \<and>
     open_fds (snd (snd (snd (create_tun env_ok (Some 0) (Some []) 16 0 1000 1000 world0))))
       = {0, 1, 2, 3}"
    using create_tun_failure_closes [OF tuple, where env = env_ok and v = 0
        and name = "Some []" and name_buffer_len = 16 and persistent = 0
        and uid = 1000 and gid = 1000 and w = world0]
    by (simp add: witness_defs insert_commute)
  from c0 c1 c2 c3 c4 c5 c6 c7 c8 ok show ?thesis by simp
qed

text \<open>
  Claim C2 asks that the create-or-attach request carries the mode the caller
  selected, and omits the no-packet-info flag exactly when header framing was asked
  for. \<open>main\<close> records \<open>-e\<close> and \<open>-f\<close> in its own \<open>ifr.ifr_flags\<close>, but
  passes only \<open>ifr.ifr_name\<close> to \<open>create_tun\<close>, which builds a request of its
  own with the fixed flags \<open>IFF_TUN | IFF_NO_PI\<close>. Run with \<open>-e\<close>, and run with
  \<open>-f\<close>, on a system where every call succeeds, the program issues
  \<open>TUNSETIFF\<close> with exactly these flags: no \<open>IFF_TAP\<close> in the first run,
  \<open>IFF_NO_PI\<close> still there in the second.
\<close>

theorem main_request_ignores_mode_options:
  "trace (snd (main env_ok Map.empty Map.empty 1000 1000 0 [Opt_e] world0)) =
     [Sys_open, Ioctl_TUNSETIFF 3 (IFF_TUN OR IFF_NO_PI) [], Fcntl_GETFL 3, Fcntl_SETFL 3 2050,
      Ioctl_TUNSETOWNER 3 1000, Ioctl_TUNSETGROUP 3 1000, Call_close_tun 3, Sys_close 3] \<and>
   trace (snd (main env_ok Map.empty Map.empty 1000 1000 0 [Opt_f] world0)) =
     [Sys_open, Ioctl_TUNSETIFF 3 (IFF_TUN OR IFF_NO_PI) [], Fcntl_GETFL 3, Fcntl_SETFL 3 2050,
      Ioctl_TUNSETOWNER 3 1000, Ioctl_TUNSETGROUP 3 1000, Call_close_tun 3, Sys_close 3]"
  by (simp add: program_defs header_consts env_ok_def world0_def)

text \<open>Whatever its arguments, every \<open>TUNSETIFF\<close> request that \<open>create_tun\<close> issues carries these flags.\<close>

lemma create_tun_request_flags:
  "Ioctl_TUNSETIFF fd flags nm
     \<in> set (trace (snd (snd (snd (create_tun env tun_fd name n p uid gid w)))))
     \<Longrightarrow> Ioctl_TUNSETIFF fd flags nm \<in> set (trace w) \<or> flags = IFF_TUN OR IFF_NO_PI"
  unfolding create_tun_def close_return_def close_return_errno_def sys_open_def sys_close_def
    syscall_def fprintf_stderr_def perror_def Let_def
  by (auto split: option.splits if_splits prod.splits)

subsection \<open>The whole program\<close>

text \<open>
  Claim C6 asks that every successful \<open>create_tun\<close> is followed by exactly one
  \<open>close_tun\<close>, and that \<open>close_tun\<close> is never invoked otherwise. \<open>main\<close>
  takes \<open>tun_fd != 0\<close> for "acquired", while \<open>create_tun\<close> takes any
  \<open>fd \<ge> 0\<close> for a successful \<open>open\<close>. Started with its standard input
  closed, the program is given descriptor 0 for the device: \<open>create_tun\<close>
  succeeds, \<open>main\<close> returns 0, \<open>close_tun\<close> has not been invoked and
  descriptor 0 is still open at exit.
\<close>

theorem main_descriptor_zero_never_released:
  "main env_fd0 Map.empty Map.empty 1000 1000 0 [] world_stdin_closed =
     (0, world_stdin_closed\<lparr>open_fds := {0, 1, 2},
           trace := [Sys_open, Ioctl_TUNSETIFF 0 (IFF_TUN OR IFF_NO_PI) [], Fcntl_GETFL 0,
                     Fcntl_SETFL 0 2050, Ioctl_TUNSETOWNER 0 1000, Ioctl_TUNSETGROUP 0 1000]\<rparr>)"
  by (simp add: program_defs header_consts env_ok_def env_fd0_def world0_def
      world_stdin_closed_def)

text \<open>
  The other half: after an option the program rejects, \<open>goto cleanup\<close> skips the
  initialisation of \<open>tun_fd\<close>. When the variable happens to hold 7, \<open>close_tun(7)\<close>
  is invoked although \<open>create_tun\<close> was never called.
\<close>

lemma main_rejected_option_closes_indeterminate:
  "main env_ok Map.empty Map.empty 1000 1000 7 [Opt_other] world0 =
     (1, world0\<lparr>errno := EBADF, trace := [Call_close_tun 7, Sys_close 7]\<rparr>)"
  by (simp add: program_defs header_consts env_ok_def world0_def)

text \<open>
  Claim C7 asks that a positive buffer size overrides the default and lets
  provisioning proceed. In \<open>case 'b'\<close> the branch of a positive value has no
  \<open>break\<close> and falls through into \<open>default\<close>, which sets \<open>res = 1\<close>. Run
  with \<open>-b 1024\<close> the program exits with status 1 and the world is unchanged: no
  device has been opened.
\<close>

theorem main_positive_buffer_exits_1:
  "main env_ok Map.empty Map.empty 1000 1000 0 [Opt_b ''1024''] world0 = (1, world0)"
  by (simp add: program_defs header_consts env_ok_def world0_def)

text \<open>The same for every argument of \<open>-b\<close> that converts to a positive \<open>int\<close>.\<close>

lemma main_positive_buffer:
  "0 < long_to_int (fst (strtol optarg)) \<Longrightarrow>
     main env getpwnam getgrnam euid egid 0 [Opt_b optarg] w = (1, w)"
  by (simp add: main_def main_switch_def cleanup_def Let_def)

text \<open>A non-positive buffer size does end the program with \<open>EINVAL\<close> before any device is opened.\<close>

lemma main_zero_buffer_exits_EINVAL:
  "main env_ok Map.empty Map.empty 1000 1000 0 [Opt_b ''0''] world0 = (EINVAL, world0)"
  by (simp add: program_defs header_consts env_ok_def world0_def)

subsection \<open>Owner and group ids\<close>

text \<open>How \<open>strtol\<close> reads a decimal string, and which strings it reads to their end.\<close>

lemma isdigit_not_isspace: "isdigit c \<Longrightarrow> \<not> isspace c"
  by (auto simp: isdigit_def isspace_def)

lemma isdigit_not_sign: "isdigit c \<Longrightarrow> c \<noteq> CHR ''-'' \<and> c \<noteq> CHR ''+''"
  by (auto simp: isdigit_def)

lemma sign_not_isspace: "\<not> isspace CHR ''-''" "\<not> isspace CHR ''+''"
  by (simp_all add: isspace_def)

lemma dropWhile_isspace_decimal:
  assumes "decimal_parts ws sg ds"
  shows "dropWhile isspace (ws @ sg @ ds) = sg @ ds"
proof -
  from assms obtain d ds' where ds: "ds = d # ds'" and d: "isdigit d"
    by (cases ds) (auto simp: decimal_parts_def)
  from assms have ws: "\<And>x. x \<in> set ws \<Longrightarrow> isspace x"
    by (simp add: decimal_parts_def list_all_iff)
  have "dropWhile isspace (sg @ ds) = sg @ ds"
    using assms ds d by (auto simp: decimal_parts_def sign_not_isspace isdigit_not_isspace)
  with ws show ?thesis by simp
qed

lemma takeWhile_all: "list_all P xs \<Longrightarrow> takeWhile P xs = xs"
  by (simp add: list_all_iff)

lemma dropWhile_all: "list_all P xs \<Longrightarrow> dropWhile P xs = []"
  by (simp add: list_all_iff)

lemma strtol_endptr:
  "fst (snd (strtol s)) =
     (let s1 = dropWhile isspace s;
          s2 = (case s1 of [] \<Rightarrow> []
                | c # cs \<Rightarrow> if c = CHR ''-'' \<or> c = CHR ''+'' then cs else s1)
      in if takeWhile isdigit s2 = [] then s else dropWhile isdigit s2)"
  by (simp add: strtol_def Let_def)

lemma strtol_decimal:
  assumes "decimal_parts ws sg ds"
  shows "strtol (ws @ sg @ ds) =
           (if LONG_MAX < signed_value sg ds then (LONG_MAX, [], ERANGE)
            else if signed_value sg ds < LONG_MIN then (LONG_MIN, [], ERANGE)
            else (signed_value sg ds, [], 0))"
proof -
  from assms obtain d ds' where ds: "ds = d # ds'" and d: "isdigit d"
    by (cases ds) (auto simp: decimal_parts_def)
  from assms have all: "list_all isdigit ds" and ne: "ds \<noteq> []"
    and sg: "sg = [] \<or> sg = ''+'' \<or> sg = ''-''"
    by (simp_all add: decimal_parts_def)
  note s1 = dropWhile_isspace_decimal [OF assms]
  have neg: "(case sg @ ds of [] \<Rightarrow> False | c # _ \<Rightarrow> c = CHR ''-'') = (sg = ''-'')"
    using sg isdigit_not_sign [OF d] by (auto simp: ds)
  have s2: "(case sg @ ds of [] \<Rightarrow> []
             | c # cs \<Rightarrow> if c = CHR ''-'' \<or> c = CHR ''+'' then cs else sg @ ds) = ds"
    using sg isdigit_not_sign [OF d] by (auto simp: ds)
  show ?thesis
    unfolding strtol_def s1 Let_def neg s2 takeWhile_all [OF all] dropWhile_all [OF all]
    using ne by (simp add: signed_value_def)
qed

lemma strtol_consumed:
  assumes "s \<noteq> []" and "fst (snd (strtol s)) = []"
  shows "\<exists>ws sg ds. s = ws @ sg @ ds \<and> decimal_parts ws sg ds"
proof -
  define s1 where "s1 = dropWhile isspace s"
  define s2 where "s2 = (case s1 of [] \<Rightarrow> []
                         | c # cs \<Rightarrow> if c = CHR ''-'' \<or> c = CHR ''+'' then cs else s1)"
  have e: "fst (snd (strtol s)) = (if takeWhile isdigit s2 = [] then s else dropWhile isdigit s2)"
    unfolding strtol_endptr s1_def s2_def Let_def by (rule refl)
  from e assms have ne: "takeWhile isdigit s2 \<noteq> []" by (auto split: if_splits)
  then have s2ne: "s2 \<noteq> []" by auto
  from e assms ne have "dropWhile isdigit s2 = []" by simp
  then have all: "list_all isdigit s2" by (simp add: list_all_iff)
  have s: "takeWhile isspace s @ s1 = s" by (simp add: s1_def)
  have ws: "list_all isspace (takeWhile isspace s)"
    by (auto simp: list_all_iff dest: set_takeWhileD)
  have "\<exists>sg. s1 = sg @ s2 \<and> (sg = [] \<or> sg = ''+'' \<or> sg = ''-'')"
  proof (cases s1)
    case Nil
    with s2ne show ?thesis by (simp add: s2_def)
  next
    case (Cons c cs)
    then show ?thesis by (auto simp: s2_def)
  qed
  then obtain sg where sg: "s1 = sg @ s2" "sg = [] \<or> sg = ''+'' \<or> sg = ''-''" by blast
  have parts: "decimal_parts (takeWhile isspace s) sg s2"
    unfolding decimal_parts_def using ws sg(2) s2ne all by blast
  have "s = takeWhile isspace s @ sg @ s2"
    using s sg(1) by metis
  with parts show ?thesis by blast
qed

lemma uint_stored: "0 \<le> v \<Longrightarrow> v \<le> UINT_MAX \<Longrightarrow> uint (word_of_int v :: 32 word) = v"
  by (simp add: UINT_MAX_def uint_word_of_int take_bit_int_eq_self)

lemma get_gid_by_name_eq: "get_gid_by_name = get_uid_by_name"
  by (intro ext) (simp add: get_gid_by_name_def get_uid_by_name_def)

lemma get_uid_decimal:
  assumes "decimal_parts ws sg ds"
  shows "get_uid_by_name dir (Some (ws @ sg @ ds)) (Some old) =
     (if 0 \<le> signed_value sg ds \<and> signed_value sg ds \<le> UINT_MAX
      then (0, Some (word_of_int (signed_value sg ds)))
      else if LONG_MIN \<le> signed_value sg ds \<and> signed_value sg ds \<le> LONG_MAX
      then (ERANGE, Some old)
      else (case dir (ws @ sg @ ds) of None \<Rightarrow> (EINVAL, Some old) | Some i \<Rightarrow> (0, Some i)))"
  by (simp add: get_uid_by_name_def strtol_decimal [OF assms] ERANGE_def LONG_MAX_def
      LONG_MIN_def UINT_MAX_def)

lemma get_uid_other:
  assumes "s \<noteq> []" and "\<nexists>ws sg ds. s = ws @ sg @ ds \<and> decimal_parts ws sg ds"
  shows "get_uid_by_name dir (Some s) (Some old) =
     (case dir s of None \<Rightarrow> (EINVAL, Some old) | Some i \<Rightarrow> (0, Some i))"
proof -
  obtain conv endptr err where st: "strtol s = (conv, endptr, err)"
    by (cases "strtol s") auto
  have "fst (snd (strtol s)) \<noteq> []"
    using strtol_consumed [OF assms(1)] assms(2) by blast
  with st have "endptr \<noteq> []" by simp
  then show ?thesis by (simp add: get_uid_by_name_def st)
qed

lemma decimal_parts_last: "decimal_parts ws sg ds \<Longrightarrow> isdigit (last (ws @ sg @ ds))"
  by (auto simp: decimal_parts_def list_all_iff)

lemmas owner_eval_defs = get_uid_by_name_def get_gid_by_name_def strtol_def isspace_def
  isdigit_def digit_val_def LONG_MAX_def LONG_MIN_def UINT_MAX_def ERANGE_def EINVAL_def

text \<open>
  Claim C8, as the code has it. For \<open>get_uid_by_name\<close> and for
  \<open>get_gid_by_name\<close>, given a non-null name and a non-null \<open>id\<close>:
  \<^item> a decimal string (optional leading white space, an optional sign, then digits
    to the end) whose value lies in \<open>[0, 2\<^sup>3\<^sup>2 - 1]\<close> gives result 0 and stores
    exactly that value;
  \<^item> a decimal string whose value lies outside that range but fits a \<open>long\<close>
    gives \<open>ERANGE\<close> and leaves the id as it was;
  \<^item> a decimal string whose value does not fit a \<open>long\<close> is resolved through
    the identity directory, because \<open>strtol\<close> reports it with \<open>errno\<close> set;
  \<^item> every other non-empty string is resolved through the identity directory;
  a name the directory does not know gives \<open>EINVAL\<close> and leaves the id as it was.
\<close>

theorem owner_id_resolution:
  assumes "resolve = get_uid_by_name \<or> resolve = get_gid_by_name"
  shows
   "(decimal_parts ws sg ds \<and> 0 \<le> signed_value sg ds \<and> signed_value sg ds \<le> UINT_MAX \<longrightarrow>
       resolve dir (Some (ws @ sg @ ds)) (Some old) = (0, Some (word_of_int (signed_value sg ds))) \<and>
       uint (word_of_int (signed_value sg ds) :: 32 word) = signed_value sg ds) \<and>
    (decimal_parts ws sg ds \<and> (signed_value sg ds < 0 \<or> UINT_MAX < signed_value sg ds) \<and>
       LONG_MIN \<le> signed_value sg ds \<and> signed_value sg ds \<le> LONG_MAX \<longrightarrow>
       resolve dir (Some (ws @ sg @ ds)) (Some old) = (ERANGE, Some old)) \<and>
    (decimal_parts ws sg ds \<and> (signed_value sg ds < LONG_MIN \<or> LONG_MAX < signed_value sg ds) \<longrightarrow>
       resolve dir (Some (ws @ sg @ ds)) (Some old) = directory_result dir (ws @ sg @ ds) old) \<and>
    (s \<noteq> [] \<and> (\<nexists>ws sg ds. s = ws @ sg @ ds \<and> decimal_parts ws sg ds) \<longrightarrow>
       resolve dir (Some s) (Some old) = directory_result dir s old)"
proof -
  from assms have r: "resolve = get_uid_by_name"
    by (auto simp: get_gid_by_name_eq)
  have a: "decimal_parts ws sg ds \<and> 0 \<le> signed_value sg ds \<and> signed_value sg ds \<le> UINT_MAX \<longrightarrow>
       resolve dir (Some (ws @ sg @ ds)) (Some old) = (0, Some (word_of_int (signed_value sg ds))) \<and>
       uint (word_of_int (signed_value sg ds) :: 32 word) = signed_value sg ds"
    by (simp add: r get_uid_decimal uint_stored)
  have b: "decimal_parts ws sg ds \<and> (signed_value sg ds < 0 \<or> UINT_MAX < signed_value sg ds) \<and>
       LONG_MIN \<le> signed_value sg ds \<and> signed_value sg ds \<le> LONG_MAX \<longrightarrow>
       resolve dir (Some (ws @ sg @ ds)) (Some old) = (ERANGE, Some old)"
    by (auto simp: r get_uid_decimal)
  have c: "decimal_parts ws sg ds \<and> (signed_value sg ds < LONG_MIN \<or> LONG_MAX < signed_value sg ds) \<longrightarrow>
       resolve dir (Some (ws @ sg @ ds)) (Some old) = directory_result dir (ws @ sg @ ds) old"
    by (auto simp: r get_uid_decimal directory_result_def LONG_MIN_def LONG_MAX_def UINT_MAX_def)
  have d: "s \<noteq> [] \<and> (\<nexists>ws sg ds. s = ws @ sg @ ds \<and> decimal_parts ws sg ds) \<longrightarrow>
       resolve dir (Some s) (Some old) = directory_result dir s old"
    using get_uid_other [of s dir old] by (simp add: r directory_result_def)
  from a b c d show ?thesis by (intro conjI)
qed

theorem owner_id_resolution_witness:
  "get_uid_by_name passwd0 (Some ''1000'') (Some 7) = (0, Some 1000) \<and>
   uint (1000 :: 32 word) = 1000 \<and>
   get_gid_by_name passwd0 (Some ''4294967296'') (Some 7) = (ERANGE, Some 7) \<and>
   get_uid_by_name passwd0 (Some ''9223372036854775808'') (Some 7) = (EINVAL, Some 7) \<and>
   get_uid_by_name passwd0 (Some ''root'') (Some 7) = (0, Some 0)"
proof -
  have p1: "decimal_parts [] [] ''1000''" "signed_value [] ''1000'' = 1000"
    and p2: "decimal_parts [] [] ''4294967296''" "signed_value [] ''4294967296'' = 4294967296"
    and p3: "decimal_parts [] [] ''9223372036854775808''"
      "signed_value [] ''9223372036854775808'' = 9223372036854775808"
    by (simp_all add: decimal_parts_def signed_value_def isdigit_def digit_val_def)
  have p4: "''root'' \<noteq> [] \<and> (\<nexists>ws sg ds. ''root'' = ws @ sg @ ds \<and> decimal_parts ws sg ds)"
  proof -
    have "\<not> isdigit (last ''root'')" by (simp add: isdigit_def)
    then show ?thesis using decimal_parts_last by fastforce
  qed
  have u: "get_uid_by_name = get_uid_by_name \<or> get_uid_by_name = get_gid_by_name"
    and g: "get_gid_by_name = get_uid_by_name \<or> get_gid_by_name = get_gid_by_name"
    by simp_all
  from owner_id_resolution [OF u, of "[]" "[]" "''1000''" passwd0 7] p1
  have r1: "get_uid_by_name passwd0 (Some ''1000'') (Some 7) = (0, Some 1000) \<and>
      uint (1000 :: 32 word) = 1000"
    by (simp add: UINT_MAX_def)
  from owner_id_resolution [OF g, of "[]" "[]" "''4294967296''" passwd0 7] p2
  have r2: "get_gid_by_name passwd0 (Some ''4294967296'') (Some 7) = (ERANGE, Some 7)"
    by (simp add: UINT_MAX_def LONG_MAX_def LONG_MIN_def)
  from owner_id_resolution [OF u, of "[]" "[]" "''9223372036854775808''" passwd0 7] p3
  have r3: "get_uid_by_name passwd0 (Some ''9223372036854775808'') (Some 7) = (EINVAL, Some 7)"
    by (simp add: UINT_MAX_def LONG_MAX_def LONG_MIN_def directory_result_def passwd0_def)
  from owner_id_resolution [OF u, where s = "''root''" and dir = passwd0 and old = 7] p4
  have r4: "get_uid_by_name passwd0 (Some ''root'') (Some 7) = (0, Some 0)"
    by (simp add: directory_result_def passwd0_def)
  from r1 r2 r3 r4 show ?thesis by simp
qed

text \<open>
  Claim C8 as stated fails: \<open>9223372036854775808\<close> is made of digits only and its
  value is outside \<open>[0, 2\<^sup>3\<^sup>2 - 1]\<close>, yet with no such name in the directory
  both functions return \<open>EINVAL\<close>, not \<open>ERANGE\<close>.
\<close>

theorem owner_id_resolution_counterexample:
  "list_all isdigit ''9223372036854775808'' \<and>
   UINT_MAX < dec_value 0 ''9223372036854775808'' \<and>
   get_uid_by_name Map.empty (Some ''9223372036854775808'') (Some 1000) = (EINVAL, Some 1000) \<and>
   get_gid_by_name Map.empty (Some ''9223372036854775808'') (Some 1000) = (EINVAL, Some 1000) \<and>
   EINVAL \<noteq> ERANGE"
  by (simp add: owner_eval_defs)

end
